theory Spec2Isabelle
  imports Complex_Main
begin

section \<open>The product router (src/routers/productRouter.js)\<close>

text \<open>
  The file creates one Express router and registers five routes on it. Each registration
  names a path and a chain of handlers; the handlers themselves are imported
  (\<^verbatim>\<open>productController\<close>, \<^verbatim>\<open>productReqValidator\<close>) and appear here by name.
\<close>

datatype http_method = GET | POST | PUT | DELETE | HEAD | PATCH | OPTIONS

datatype handler =
    GetAllProducts
  | GetProductById
  | CreateProduct
  | UpdateProduct
  | DeleteProduct
  | ProductReqValidator

record layer =
  route_method :: http_method
  route_path :: string
  route_stack :: "handler list"

type_synonym router = "layer list"

text \<open>\<^verbatim>\<open>express.Router()\<close>: a router with no route registered.\<close>

definition Router :: router where
  "Router = []"

text \<open>
  \<^verbatim>\<open>router.get(path, ...handlers)\<close> and its siblings append one layer to the router's
  stack; the router is mutated in place, so the model returns the new stack.
\<close>

definition router_get :: "router \<Rightarrow> string \<Rightarrow> handler list \<Rightarrow> router" where
  "router_get r p hs = r @ [\<lparr>route_method = GET, route_path = p, route_stack = hs\<rparr>]"

definition router_post :: "router \<Rightarrow> string \<Rightarrow> handler list \<Rightarrow> router" where
  "router_post r p hs = r @ [\<lparr>route_method = POST, route_path = p, route_stack = hs\<rparr>]"

definition router_put :: "router \<Rightarrow> string \<Rightarrow> handler list \<Rightarrow> router" where
  "router_put r p hs = r @ [\<lparr>route_method = PUT, route_path = p, route_stack = hs\<rparr>]"

definition router_delete :: "router \<Rightarrow> string \<Rightarrow> handler list \<Rightarrow> router" where
  "router_delete r p hs = r @ [\<lparr>route_method = DELETE, route_path = p, route_stack = hs\<rparr>]"

text \<open>The five registrations of the file, in the order of lines 52, 99, 139, 192 and 228.\<close>

definition productRouter :: router where
  "productRouter =
     (let r0 = Router;
          r1 = router_get r0 ''/products'' [GetAllProducts];
          r2 = router_get r1 ''/products/:id'' [GetProductById];
          r3 = router_post r2 ''/products/'' [ProductReqValidator, CreateProduct];
          r4 = router_put r3 ''/products/:id'' [ProductReqValidator, UpdateProduct];
          r5 = router_delete r4 ''/products/:id'' [DeleteProduct]
      in r5)"

text \<open>
  The router is created without options, so strict routing is off: a route path with a
  trailing slash and the same path without it name one endpoint.
\<close>

definition non_strict :: "string \<Rightarrow> string" where
  "non_strict p = (if 1 < length p \<and> last p = CHR ''/'' then butlast p else p)"

text \<open>
  The endpoint a layer binds: method, path, and the handler that ends the chain. The
  handlers before it are the layer's pre-steps.
\<close>

definition endpoint :: "layer \<Rightarrow> http_method \<times> string \<times> handler" where
  "endpoint l = (route_method l, non_strict (route_path l), last (route_stack l))"

definition pre_steps :: "layer \<Rightarrow> handler list" where
  "pre_steps l = butlast (route_stack l)"

section \<open>Dispatch\<close>

text \<open>
  An Express handler \<^verbatim>\<open>(req, res, next)\<close> either passes control on by calling
  \<^verbatim>\<open>next()\<close>, or ends the chain: it sends a response (or fails, which the
  framework answers). What each imported handler does is not in this file, so their
  behaviour is a parameter: a function from the handler's name, the request and the state
  of the world to the step taken and the new state.
\<close>

datatype 'r step = Next | Send 'r

type_synonym ('q, 's, 'r) behaviour = "handler \<Rightarrow> 'q \<Rightarrow> 's \<Rightarrow> 'r step \<times> 's"

text \<open>
  The handlers of one layer run in the order they were given. The result is the list of
  handlers that were invoked, the response if one was sent, and the final state.
\<close>

fun run_stack ::
  "('q, 's, 'r) behaviour \<Rightarrow> handler list \<Rightarrow> 'q \<Rightarrow> 's \<Rightarrow> handler list \<times> 'r option \<times> 's" where
  "run_stack run [] q s = ([], None, s)"
| "run_stack run (h # hs) q s =
     (case run h q s of
        (Send r, s') \<Rightarrow> ([h], Some r, s')
      | (Next, s') \<Rightarrow> (case run_stack run hs q s' of (t, r, s'') \<Rightarrow> (h # t, r, s'')))"

text \<open>A GET route also answers HEAD requests when no HEAD route is registered.\<close>

definition handles_method :: "layer \<Rightarrow> http_method \<Rightarrow> bool" where
  "handles_method l m = (route_method l = m \<or> (m = HEAD \<and> route_method l = GET))"

text \<open>
  The router tries its layers in registration order. A layer applies when it handles the
  request's method and its path pattern matches the request's URL; how a pattern matches
  a URL is the framework's business and is the parameter \<open>mt\<close>. When every handler
  of a layer passed control on, the router goes on to the following layers.
\<close>

fun handle ::
  "('q, 's, 'r) behaviour \<Rightarrow> (string \<Rightarrow> string \<Rightarrow> bool) \<Rightarrow> router \<Rightarrow> http_method \<Rightarrow> string \<Rightarrow>
     'q \<Rightarrow> 's \<Rightarrow> handler list \<times> 'r option \<times> 's" where
  "handle run mt [] m u q s = ([], None, s)"
| "handle run mt (l # ls) m u q s =
     (if handles_method l m \<and> mt (route_path l) u then
        (case run_stack run (route_stack l) q s of
           (t, Some r, s') \<Rightarrow> (t, Some r, s')
         | (t, None, s') \<Rightarrow>
             (case handle run mt ls m u q s' of (t', r, s'') \<Rightarrow> (t @ t', r, s'')))
      else handle run mt ls m u q s)"

definition invoked ::
  "('q, 's, 'r) behaviour \<Rightarrow> (string \<Rightarrow> string \<Rightarrow> bool) \<Rightarrow> http_method \<Rightarrow> string \<Rightarrow> 'q \<Rightarrow> 's \<Rightarrow>
     handler list" where
  "invoked run mt m u q s = fst (handle run mt productRouter m u q s)"

text \<open>The pre-steps the router runs for a method: those of every layer registered for it.\<close>

definition pre_step_chain :: "router \<Rightarrow> http_method \<Rightarrow> handler list" where
  "pre_step_chain r m = concat (map pre_steps (filter (\<lambda>l. route_method l = m) r))"

section \<open>The route documentation\<close>

text \<open>
  Each route carries a \<^verbatim>\<open>@swagger\<close> annotation, from which the API description is
  generated. The annotations are data; they are transcribed here field by field.
\<close>

datatype schema =
    TString
  | TInteger
  | TNumber
  | TObject "(string \<times> schema) list"
  | TArray schema

record parameter =
  param_in :: string
  param_name :: string
  param_required :: bool
  param_schema :: schema

record response =
  resp_status :: nat
  resp_description :: string
  resp_schema :: "schema option"

record operation =
  op_path :: string
  op_method :: http_method
  op_summary :: string
  op_parameters :: "parameter list"
  op_request_body :: "schema option"
  op_responses :: "response list"

text \<open>Lines 14 to 42: GET /products.\<close>

definition doc_get_all :: operation where
  "doc_get_all =
     \<lparr>op_path = ''/products'', op_method = GET, op_summary = ''Get all products'',
      op_parameters = [],
      op_request_body = None,
      op_responses =
        [\<lparr>resp_status = 200, resp_description = ''A list of products'',
           resp_schema = Some (TArray (TObject
             [(''id'', TInteger), (''name'', TString), (''price'', TNumber),
              (''color'', TString), (''stock'', TInteger)]))\<rparr>,
         \<lparr>resp_status = 500, resp_description = ''Server error'', resp_schema = None\<rparr>]\<rparr>"

text \<open>Lines 54 to 88: GET /products/{id}.\<close>

definition doc_get_by_id :: operation where
  "doc_get_by_id =
     \<lparr>op_path = ''/products/{id}'', op_method = GET, op_summary = ''Get a product by ID'',
      op_parameters =
        [\<lparr>param_in = ''path'', param_name = ''id'', param_required = True,
           param_schema = TString\<rparr>],
      op_request_body = None,
      op_responses =
        [\<lparr>resp_status = 200, resp_description = ''A product'',
           resp_schema = Some (TObject
             [(''id'', TInteger), (''name'', TString), (''price'', TNumber),
              (''color'', TString), (''stock'', TInteger)])\<rparr>,
         \<lparr>resp_status = 404, resp_description = ''Product not found'', resp_schema = None\<rparr>,
         \<lparr>resp_status = 500, resp_description = ''Server error'', resp_schema = None\<rparr>]\<rparr>"

text \<open>Lines 101 to 129: POST /products.\<close>

definition doc_create :: operation where
  "doc_create =
     \<lparr>op_path = ''/products'', op_method = POST, op_summary = ''Create a new product'',
      op_parameters = [],
      op_request_body = Some (TObject
        [(''name'', TString), (''price'', TNumber), (''color'', TString),
         (''stock'', TInteger)]),
      op_responses =
        [\<lparr>resp_status = 201, resp_description = ''Product created'', resp_schema = None\<rparr>,
         \<lparr>resp_status = 400, resp_description = ''Invalid input'', resp_schema = None\<rparr>,
         \<lparr>resp_status = 500, resp_description = ''Server error'', resp_schema = None\<rparr>]\<rparr>"

text \<open>Lines 145 to 181: PUT /products/{id}.\<close>

definition doc_update :: operation where
  "doc_update =
     \<lparr>op_path = ''/products/{id}'', op_method = PUT, op_summary = ''Update a product by ID'',
      op_parameters =
        [\<lparr>param_in = ''path'', param_name = ''id'', param_required = True,
           param_schema = TString\<rparr>],
      op_request_body = Some (TObject
        [(''name'', TString), (''price'', TNumber), (''color'', TString),
         (''stock'', TInteger)]),
      op_responses =
        [\<lparr>resp_status = 200, resp_description = ''Product updated'', resp_schema = None\<rparr>,
         \<lparr>resp_status = 400, resp_description = ''Invalid input'', resp_schema = None\<rparr>,
         \<lparr>resp_status = 404, resp_description = ''Product not found'', resp_schema = None\<rparr>,
         \<lparr>resp_status = 500, resp_description = ''Server error'', resp_schema = None\<rparr>]\<rparr>"

text \<open>Lines 198 to 217: DELETE /products/{id}.\<close>

definition doc_delete :: operation where
  "doc_delete =
     \<lparr>op_path = ''/products/{id}'', op_method = DELETE, op_summary = ''Delete a product by ID'',
      op_parameters =
        [\<lparr>param_in = ''path'', param_name = ''id'', param_required = True,
           param_schema = TString\<rparr>],
      op_request_body = None,
      op_responses =
        [\<lparr>resp_status = 200, resp_description = ''Product deleted'', resp_schema = None\<rparr>,
         \<lparr>resp_status = 404, resp_description = ''Product not found'', resp_schema = None\<rparr>,
         \<lparr>resp_status = 500, resp_description = ''Server error'', resp_schema = None\<rparr>]\<rparr>"

definition swagger :: "operation list" where
  "swagger = [doc_get_all, doc_get_by_id, doc_create, doc_update, doc_delete]"

text \<open>The operations documented on the by-id path.\<close>

definition by_id_operations :: "operation list \<Rightarrow> operation list" where
  "by_id_operations ops = filter (\<lambda>d. op_path d = ''/products/{id}'') ops"

text \<open>
  The types a schema declares for a property called \<open>id\<close>, in the object itself or in
  the items of an array.
\<close>

fun id_property :: "schema \<Rightarrow> schema list" where
  "id_property (TObject ps) = map snd (filter (\<lambda>p. fst p = ''id'') ps)"
| "id_property (TArray t) = id_property t"
| "id_property TString = []"
| "id_property TInteger = []"
| "id_property TNumber = []"

definition response_id_types :: "operation \<Rightarrow> schema list" where
  "response_id_types d =
     concat (map (\<lambda>r. case resp_schema r of None \<Rightarrow> [] | Some t \<Rightarrow> id_property t)
       (op_responses d))"

section \<open>The imported handlers\<close>

text \<open>
  The validator middleware (\<^verbatim>\<open>../middleware/productReqValidator.js\<close>), the controller
  (\<^verbatim>\<open>../controllers/productController.js\<close>) and the persistence layer behind it are
  imported by the router and their code is not in the router's file. The definitions of
  this section follow the specification's description of them.
\<close>

text \<open>
  Modelled from the spec: the raw, untyped request body, a JSON object read by field name.
\<close>

datatype json = JNull | JBool bool | JNum rat | JStr string

type_synonym body = "string \<rightharpoonup> json"

text \<open>
  A request as the handlers read it: the \<^verbatim>\<open>id\<close> of the path, which the specification
  types as an integer, and the parsed JSON body.
\<close>

record request =
  req_id :: int
  req_body :: body

text \<open>
  Modelled from the spec: the Product entity of the data model and the replies of the
  handlers, a status with a Product or a message.
\<close>

record product =
  product_id :: int
  product_name :: string
  product_price :: rat
  product_color :: "string option"
  product_stock :: int

datatype content = OneProduct product | Message string

datatype reply = Reply nat content

fun reply_status :: "reply \<Rightarrow> nat" where
  "reply_status (Reply c b) = c"

text \<open>
  Modelled from the spec: the Validator's check of the request body, which is in
  productReqValidator.js. The specification's data model makes name a required non-empty
  string, price a required non-negative number and stock a required non-negative
  integer. It calls color optional in the data model and lists it among the required
  fields in the Validator's contract; \<open>color_required\<close> selects the reading. First,
  name is required and a non-empty string.
\<close>

definition valid_name :: "body \<Rightarrow> bool" where
  "valid_name b = (case b ''name'' of Some (JStr n) \<Rightarrow> n \<noteq> [] | _ \<Rightarrow> False)"

text \<open>Modelled from the spec: price is required and a non-negative number.\<close>

definition valid_price :: "body \<Rightarrow> bool" where
  "valid_price b = (case b ''price'' of Some (JNum x) \<Rightarrow> 0 \<le> x | _ \<Rightarrow> False)"

text \<open>Modelled from the spec: stock is required and a non-negative integer.\<close>

definition valid_stock :: "body \<Rightarrow> bool" where
  "valid_stock b =
     (case b ''stock'' of Some (JNum x) \<Rightarrow> of_int \<lfloor>x\<rfloor> = x \<and> 0 \<le> x | _ \<Rightarrow> False)"

text \<open>
  Modelled from the spec: color is a string; \<open>color_required\<close> says whether it may be
  left out.
\<close>

definition valid_color :: "bool \<Rightarrow> body \<Rightarrow> bool" where
  "valid_color color_required b =
     (case b ''color'' of
        None \<Rightarrow> \<not> color_required
      | Some (JStr c) \<Rightarrow> True
      | Some _ \<Rightarrow> False)"

text \<open>Modelled from the spec: a body is valid when each of the four fields is.\<close>

definition valid_body :: "bool \<Rightarrow> body \<Rightarrow> bool" where
  "valid_body color_required b =
     (valid_name b \<and> valid_price b \<and> valid_color color_required b \<and> valid_stock b)"

text \<open>
  Modelled from the spec: the Validator middleware of productReqValidator.js. It passes a
  valid body on to the next step and answers any other with the invalid-input status 400,
  which halts the chain.
\<close>

definition productReqValidator :: "bool \<Rightarrow> body \<Rightarrow> reply step" where
  "productReqValidator color_required b =
     (if valid_body color_required b then Next
      else Send (Reply 400 (Message ''Invalid input'')))"

text \<open>
  Modelled from the spec: the persistence layer, which owns the records and is keyed by
  id. The store is the collection of its Products, in the order they were created.
\<close>

type_synonym store = "product list"

definition find_product :: "int \<Rightarrow> store \<Rightarrow> product option" where
  "find_product i s = find (\<lambda>p. product_id p = i) s"

text \<open>
  Modelled from the spec: the Product that the persistence layer makes of a validated
  payload and the id it assigns. The defaults for a missing or ill-typed field are never
  used for a body that passed the Validator.
\<close>

definition product_of :: "int \<Rightarrow> body \<Rightarrow> product" where
  "product_of i b =
     \<lparr>product_id = i,
      product_name = (case b ''name'' of Some (JStr n) \<Rightarrow> n | _ \<Rightarrow> []),
      product_price = (case b ''price'' of Some (JNum x) \<Rightarrow> x | _ \<Rightarrow> 0),
      product_color = (case b ''color'' of Some (JStr c) \<Rightarrow> Some c | _ \<Rightarrow> None),
      product_stock = (case b ''stock'' of Some (JNum x) \<Rightarrow> \<lfloor>x\<rfloor> | _ \<Rightarrow> 0)\<rparr>"

text \<open>
  Modelled from the spec: \<^verbatim>\<open>productController.getProductById\<close>. It returns the
  matching Product with status 200, or the not-found status 404 when the id is absent.
\<close>

definition getProductById :: "int \<Rightarrow> store \<Rightarrow> reply \<times> store" where
  "getProductById i s =
     (case find_product i s of
        Some p \<Rightarrow> (Reply 200 (OneProduct p), s)
      | None \<Rightarrow> (Reply 404 (Message ''Product not found''), s))"

text \<open>
  Modelled from the spec: \<^verbatim>\<open>productController.createProduct\<close>. The store assigns the
  id, not the client; how it chooses one is the parameter \<open>assign\<close>, for which
  \<open>next_id\<close> below is the store's own choice. The persisted Product is returned with
  status 201.
\<close>

definition createProduct :: "(store \<Rightarrow> int) \<Rightarrow> body \<Rightarrow> store \<Rightarrow> reply \<times> store" where
  "createProduct assign b s =
     (let p = product_of (assign s) b in (Reply 201 (OneProduct p), s @ [p]))"

text \<open>
  Modelled from the spec: the id the persistence layer assigns to a new record. The
  specification makes the id an integer that is unique among the records and chosen by
  the store; it does not say how. The model takes the integer after the largest id in
  use (1 for an empty store).
\<close>

definition next_id :: "store \<Rightarrow> int" where
  "next_id s = fold max (map product_id s) 0 + 1"

text \<open>
  Modelled from the spec: \<^verbatim>\<open>productController.deleteProduct\<close>. It removes the record
  and confirms with status 200, or answers 404 when the id is absent.
\<close>

definition deleteProduct :: "int \<Rightarrow> store \<Rightarrow> reply \<times> store" where
  "deleteProduct i s =
     (case find_product i s of
        Some p \<Rightarrow> (Reply 200 (Message ''Product deleted''), filter (\<lambda>p. product_id p \<noteq> i) s)
      | None \<Rightarrow> (Reply 404 (Message ''Product not found''), s))"

text \<open>
  Modelled from the spec: what the imported handlers do with a request. The list and
  update operations are not modelled; their behaviour is the parameter \<open>other\<close>.
\<close>

definition product_api ::
  "bool \<Rightarrow> (store \<Rightarrow> int) \<Rightarrow> (request, store, reply) behaviour \<Rightarrow>
     (request, store, reply) behaviour" where
  "product_api color_required assign other h q s =
     (case h of
        ProductReqValidator \<Rightarrow> (productReqValidator color_required (req_body q), s)
      | GetAllProducts \<Rightarrow> other GetAllProducts q s
      | GetProductById \<Rightarrow> (case getProductById (req_id q) s of (r, s') \<Rightarrow> (Send r, s'))
      | CreateProduct \<Rightarrow> (case createProduct assign (req_body q) s of (r, s') \<Rightarrow> (Send r, s'))
      | UpdateProduct \<Rightarrow> other UpdateProduct q s
      | DeleteProduct \<Rightarrow> (case deleteProduct (req_id q) s of (r, s') \<Rightarrow> (Send r, s')))"

section \<open>The bindings\<close>

lemma productRouter_layers:
  "productRouter =
     [\<lparr>route_method = GET, route_path = ''/products'', route_stack = [GetAllProducts]\<rparr>,
      \<lparr>route_method = GET, route_path = ''/products/:id'', route_stack = [GetProductById]\<rparr>,
      \<lparr>route_method = POST, route_path = ''/products/'',
         route_stack = [ProductReqValidator, CreateProduct]\<rparr>,
      \<lparr>route_method = PUT, route_path = ''/products/:id'',
         route_stack = [ProductReqValidator, UpdateProduct]\<rparr>,
      \<lparr>route_method = DELETE, route_path = ''/products/:id'', route_stack = [DeleteProduct]\<rparr>]"
  by (simp add: productRouter_def Router_def router_get_def router_post_def router_put_def
      router_delete_def)

text \<open>
  C1. The router binds exactly five endpoints and no other: GET /products to the list
  operation, GET /products/:id to get-by-id, POST /products to create, PUT /products/:id
  to update and DELETE /products/:id to delete. The POST route is registered as
  \<^verbatim>\<open>/products/\<close>, which under non-strict routing is the endpoint /products.
\<close>

theorem productRouter_endpoints:
  "map endpoint productRouter =
     [(GET, ''/products'', GetAllProducts),
      (GET, ''/products/:id'', GetProductById),
      (POST, ''/products'', CreateProduct),
      (PUT, ''/products/:id'', UpdateProduct),
      (DELETE, ''/products/:id'', DeleteProduct)]"
  by (simp add: productRouter_layers endpoint_def non_strict_def)

text \<open>
  C2. On the mutating routes (POST /products, PUT /products/:id) the validator runs
  first, and the controller is invoked only after the validator has passed the request
  on; on every other method (GET and DELETE among them) the validator is not invoked.
  This holds whatever the handlers do and however paths are matched.
\<close>

theorem validator_runs_before_controller:
  "(m = POST \<longrightarrow>
      (invoked run mt m u q s = [] \<or> invoked run mt m u q s = [ProductReqValidator]
         \<or> invoked run mt m u q s = [ProductReqValidator, CreateProduct])
      \<and> (CreateProduct \<in> set (invoked run mt m u q s) \<longrightarrow>
            fst (run ProductReqValidator q s) = Next)
      \<and> (mt ''/products/'' u \<longrightarrow> take 1 (invoked run mt m u q s) = [ProductReqValidator]))
   \<and> (m = PUT \<longrightarrow>
      (invoked run mt m u q s = [] \<or> invoked run mt m u q s = [ProductReqValidator]
         \<or> invoked run mt m u q s = [ProductReqValidator, UpdateProduct])
      \<and> (UpdateProduct \<in> set (invoked run mt m u q s) \<longrightarrow>
            fst (run ProductReqValidator q s) = Next)
      \<and> (mt ''/products/:id'' u \<longrightarrow> take 1 (invoked run mt m u q s) = [ProductReqValidator]))
   \<and> (m \<noteq> POST \<and> m \<noteq> PUT \<longrightarrow> ProductReqValidator \<notin> set (invoked run mt m u q s))"
  by (cases m)
    (auto simp: invoked_def productRouter_layers handles_method_def
      split: prod.splits step.splits option.splits)

theorem validator_runs_before_controller_witness:
  "invoked (\<lambda>h q s. (if h = ProductReqValidator then Next else Send (201 :: nat), s))
      (\<lambda>p u. non_strict p = non_strict u) POST ''/products'' () ()
     = [ProductReqValidator, CreateProduct]
   \<and> invoked (\<lambda>h q s. (if h = ProductReqValidator then Next else Send (200 :: nat), s))
      (\<lambda>p u. non_strict p = non_strict u) DELETE ''/products/:id'' () ()
     = [DeleteProduct]"
  using validator_runs_before_controller
    [of POST "\<lambda>h q s. (if h = ProductReqValidator then Next else Send (201 :: nat), s)"
      "\<lambda>p u. non_strict p = non_strict u" "''/products''" "()" "()"]
  by (simp add: invoked_def productRouter_layers handles_method_def non_strict_def)

text \<open>
  C9. The POST route and the PUT route have the same pre-step, the one validator
  middleware, so whatever the validator does, a request passes the pre-step of one
  exactly when it passes the pre-step of the other.
\<close>

theorem create_and_update_share_validator:
  "pre_step_chain productRouter POST = [ProductReqValidator]
   \<and> pre_step_chain productRouter PUT = [ProductReqValidator]
   \<and> (\<forall>run q s. run_stack run (pre_step_chain productRouter POST) q s
                 = run_stack run (pre_step_chain productRouter PUT) q s)"
  by (simp add: pre_step_chain_def productRouter_layers pre_steps_def)

text \<open>
  C10. The documentation of every by-id route (GET, PUT and DELETE on /products/{id})
  declares one parameter: id, in the path, required, of schema type string. The response
  schemas that describe a Product declare its id as an integer.
\<close>

theorem id_documented_as_string:
  "map (\<lambda>d. (op_method d, op_parameters d)) (by_id_operations swagger) =
     [(GET, [\<lparr>param_in = ''path'', param_name = ''id'', param_required = True,
               param_schema = TString\<rparr>]),
      (PUT, [\<lparr>param_in = ''path'', param_name = ''id'', param_required = True,
               param_schema = TString\<rparr>]),
      (DELETE, [\<lparr>param_in = ''path'', param_name = ''id'', param_required = True,
                  param_schema = TString\<rparr>])]
   \<and> concat (map response_id_types swagger) = [TInteger, TInteger]"
  by (simp add: by_id_operations_def swagger_def response_id_types_def doc_get_all_def
      doc_get_by_id_def doc_create_def doc_update_def doc_delete_def)

section \<open>The validator and the controller\<close>

lemma find_product_append:
  "find_product i (s @ [p]) =
     (case find_product i s of
        Some x \<Rightarrow> Some x
      | None \<Rightarrow> if product_id p = i then Some p else None)"
  by (induction s) (auto simp: find_product_def)

lemma find_product_None: "find_product i s = None \<longleftrightarrow> i \<notin> product_id ` set s"
  by (induction s) (auto simp: find_product_def)

lemma find_product_filter: "find_product i (filter (\<lambda>p. product_id p \<noteq> i) s) = None"
  by (induction s) (auto simp: find_product_def)

text \<open>
  C3. A body that lacks the name field, or whose price is negative, or whose stock is
  negative, is answered 400 by the validator; on the POST and PUT routes that is the
  response of the router, the validator is the only handler invoked, and the store is
  untouched.
\<close>

theorem invalid_body_rejected:
  assumes "req_body q ''name'' = None
     \<or> (\<exists>x. req_body q ''price'' = Some (JNum x) \<and> x < 0)
     \<or> (\<exists>x. req_body q ''stock'' = Some (JNum x) \<and> x < 0)"
  shows "productReqValidator cr (req_body q) = Send (Reply 400 (Message ''Invalid input''))
    \<and> ((m = POST \<and> mt ''/products/'' u \<or> m = PUT \<and> mt ''/products/:id'' u) \<longrightarrow>
         handle (product_api cr assign other) mt productRouter m u q s
           = ([ProductReqValidator], Some (Reply 400 (Message ''Invalid input'')), s))"
proof -
  have "\<not> valid_body cr (req_body q)"
    using assms by (auto simp: valid_body_def valid_name_def valid_price_def valid_stock_def)
  then have v: "productReqValidator cr (req_body q) = Send (Reply 400 (Message ''Invalid input''))"
    by (simp add: productReqValidator_def)
  have "handle (product_api cr assign other) mt productRouter m u q s
           = ([ProductReqValidator], Some (Reply 400 (Message ''Invalid input'')), s)"
    if "m = POST \<and> mt ''/products/'' u \<or> m = PUT \<and> mt ''/products/:id'' u"
    using that v by (auto simp: productRouter_layers handles_method_def product_api_def)
  with v show ?thesis by blast
qed

theorem invalid_body_rejected_witness:
  "req_body \<lparr>req_id = 0, req_body = [''price'' \<mapsto> JNum 5, ''stock'' \<mapsto> JNum (- 1)]\<rparr> ''name'' = None
   \<and> handle (product_api True (\<lambda>s. 1) (\<lambda>h q s. (Next, s))) (\<lambda>p u. non_strict p = non_strict u)
        productRouter POST ''/products''
        \<lparr>req_id = 0, req_body = [''price'' \<mapsto> JNum 5, ''stock'' \<mapsto> JNum (- 1)]\<rparr> []
      = ([ProductReqValidator], Some (Reply 400 (Message ''Invalid input'')), [])"
  using invalid_body_rejected
    [of "\<lparr>req_id = 0, req_body = [''price'' \<mapsto> JNum 5, ''stock'' \<mapsto> JNum (- 1)]\<rparr>"
      True POST "\<lambda>p u. non_strict p = non_strict u" "''/products''" "\<lambda>s. 1"
      "\<lambda>h q s. (Next, s)" "[]"]
  by (simp add: non_strict_def)

lemma fold_max_ge_start: "(a :: int) \<le> fold max xs a"
proof (induction xs arbitrary: a)
  case Nil
  show ?case by simp
next
  case (Cons x xs)
  have "a \<le> max x a" by simp
  also have "max x a \<le> fold max xs (max x a)" by (rule Cons.IH)
  finally show ?case by simp
qed

lemma fold_max_ge_member: "(x :: int) \<in> set xs \<Longrightarrow> x \<le> fold max xs a"
proof (induction xs arbitrary: a)
  case Nil
  then show ?case by simp
next
  case (Cons y ys)
  show ?case
  proof (cases "x = y")
    case True
    have "x \<le> max y a" using True by simp
    also have "max y a \<le> fold max ys (max y a)" by (rule fold_max_ge_start)
    finally show ?thesis by simp
  next
    case False
    with Cons.prems have "x \<in> set ys" by simp
    then show ?thesis using Cons.IH by simp
  qed
qed

lemma next_id_unused: "next_id s \<notin> product_id ` set s"
proof
  assume "next_id s \<in> product_id ` set s"
  then have "next_id s \<in> set (map product_id s)" by simp
  then have "next_id s \<le> fold max (map product_id s) 0" by (rule fold_max_ge_member)
  then show False by (simp add: next_id_def)
qed

lemma create_with_unused_id:
  assumes "valid_body cr b" and "assign s \<notin> product_id ` set s"
  shows "\<exists>p s'. createProduct assign b s = (Reply 201 (OneProduct p), s')
     \<and> product_id p = assign s
     \<and> b ''name'' = Some (JStr (product_name p))
     \<and> b ''price'' = Some (JNum (product_price p))
     \<and> b ''color'' = map_option JStr (product_color p)
     \<and> b ''stock'' = Some (JNum (of_int (product_stock p)))
     \<and> getProductById (product_id p) s' = (Reply 200 (OneProduct p), s')"
proof -
  define p where "p = product_of (assign s) b"
  have created: "createProduct assign b s = (Reply 201 (OneProduct p), s @ [p])"
    by (simp add: createProduct_def p_def Let_def)
  have pid: "product_id p = assign s"
    by (simp add: p_def product_of_def)
  have "find_product (assign s) s = None"
    using assms(2) by (simp add: find_product_None)
  then have got: "getProductById (product_id p) (s @ [p]) = (Reply 200 (OneProduct p), s @ [p])"
    by (simp add: getProductById_def find_product_append pid)
  have name: "b ''name'' = Some (JStr (product_name p))"
    using assms(1)
    by (auto simp: p_def product_of_def valid_body_def valid_name_def
        split: option.splits json.splits)
  have price: "b ''price'' = Some (JNum (product_price p))"
    using assms(1)
    by (auto simp: p_def product_of_def valid_body_def valid_price_def
        split: option.splits json.splits)
  have color: "b ''color'' = map_option JStr (product_color p)"
    using assms(1)
    by (auto simp: p_def product_of_def valid_body_def valid_color_def
        split: option.splits json.splits)
  have stock: "b ''stock'' = Some (JNum (of_int (product_stock p)))"
    using assms(1)
    by (auto simp: p_def product_of_def valid_body_def valid_stock_def
        split: option.splits json.splits)
  from created pid name price color stock got show ?thesis
    by blast
qed

text \<open>
  C4. For every payload that passes the validator and every store, create answers 201
  with a Product that carries the id the store assigned, an id no other record has, and
  the payload's name, price, color and stock; get-by-id with that id on the resulting
  store answers 200 with the same Product.
\<close>

theorem create_then_get:
  assumes "valid_body cr b"
  shows "\<exists>p s'. createProduct next_id b s = (Reply 201 (OneProduct p), s')
     \<and> product_id p = next_id s
     \<and> product_id p \<notin> product_id ` set s
     \<and> b ''name'' = Some (JStr (product_name p))
     \<and> b ''price'' = Some (JNum (product_price p))
     \<and> b ''color'' = map_option JStr (product_color p)
     \<and> b ''stock'' = Some (JNum (of_int (product_stock p)))
     \<and> getProductById (product_id p) s' = (Reply 200 (OneProduct p), s')"
proof -
  have unused: "next_id s \<notin> product_id ` set s"
    by (rule next_id_unused)
  from create_with_unused_id [of cr b next_id s, OF assms unused] obtain p s' where
    r: "createProduct next_id b s = (Reply 201 (OneProduct p), s')"
      "product_id p = next_id s"
      "b ''name'' = Some (JStr (product_name p))"
      "b ''price'' = Some (JNum (product_price p))"
      "b ''color'' = map_option JStr (product_color p)"
      "b ''stock'' = Some (JNum (of_int (product_stock p)))"
      "getProductById (product_id p) s' = (Reply 200 (OneProduct p), s')"
    by blast
  from r(2) unused have "product_id p \<notin> product_id ` set s"
    by simp
  with r show ?thesis
    by blast
qed

theorem create_then_get_witness:
  "valid_body True
     [''name'' \<mapsto> JStr ''Chair'', ''price'' \<mapsto> JNum (4999 / 100), ''color'' \<mapsto> JStr ''red'',
      ''stock'' \<mapsto> JNum 10]
   \<and> createProduct next_id
        [''name'' \<mapsto> JStr ''Chair'', ''price'' \<mapsto> JNum (4999 / 100), ''color'' \<mapsto> JStr ''red'',
         ''stock'' \<mapsto> JNum 10]
        [\<lparr>product_id = 2, product_name = ''Desk'', product_price = 120,
           product_color = None, product_stock = 4\<rparr>]
      = (Reply 201 (OneProduct
           \<lparr>product_id = 3, product_name = ''Chair'', product_price = 4999 / 100,
              product_color = Some ''red'', product_stock = 10\<rparr>),
         [\<lparr>product_id = 2, product_name = ''Desk'', product_price = 120,
            product_color = None, product_stock = 4\<rparr>,
          \<lparr>product_id = 3, product_name = ''Chair'', product_price = 4999 / 100,
             product_color = Some ''red'', product_stock = 10\<rparr>])
   \<and> getProductById 3
        [\<lparr>product_id = 2, product_name = ''Desk'', product_price = 120,
            product_color = None, product_stock = 4\<rparr>,
          \<lparr>product_id = 3, product_name = ''Chair'', product_price = 4999 / 100,
             product_color = Some ''red'', product_stock = 10\<rparr>]
      = (Reply 200 (OneProduct
           \<lparr>product_id = 3, product_name = ''Chair'', product_price = 4999 / 100,
              product_color = Some ''red'', product_stock = 10\<rparr>),
         [\<lparr>product_id = 2, product_name = ''Desk'', product_price = 120,
            product_color = None, product_stock = 4\<rparr>,
          \<lparr>product_id = 3, product_name = ''Chair'', product_price = 4999 / 100,
             product_color = Some ''red'', product_stock = 10\<rparr>])"
proof -
  let ?b = "[''name'' \<mapsto> JStr ''Chair'', ''price'' \<mapsto> JNum (4999 / 100),
             ''color'' \<mapsto> JStr ''red'', ''stock'' \<mapsto> JNum 10]"
  let ?desk = "\<lparr>product_id = 2, product_name = ''Desk'', product_price = 120,
                 product_color = None, product_stock = 4\<rparr>"
  let ?chair = "\<lparr>product_id = 3, product_name = ''Chair'', product_price = 4999 / 100,
                  product_color = Some ''red'', product_stock = 10\<rparr>"
  have v: "valid_body True ?b"
    by (simp add: valid_body_def valid_name_def valid_price_def valid_color_def valid_stock_def)
  have c: "createProduct next_id ?b [?desk] = (Reply 201 (OneProduct ?chair), [?desk, ?chair])"
    by (simp add: createProduct_def next_id_def product_of_def Let_def)
  from create_then_get [OF v, of "[?desk]"] obtain p s' where
    "createProduct next_id ?b [?desk] = (Reply 201 (OneProduct p), s')"
    "getProductById (product_id p) s' = (Reply 200 (OneProduct p), s')"
    by blast
  with c have "getProductById 3 [?desk, ?chair] = (Reply 200 (OneProduct ?chair), [?desk, ?chair])"
    by simp
  with v c show ?thesis
    by simp
qed

text \<open>
  C6. When delete answers 200 for an id, get-by-id with that id on the resulting store
  answers not-found (404); reading does not change the store, so every later get-by-id
  of that id sees the same.
\<close>

theorem get_after_delete:
  assumes "reply_status (fst (deleteProduct i s)) = 200"
  shows "getProductById i (snd (deleteProduct i s))
     = (Reply 404 (Message ''Product not found''), snd (deleteProduct i s))"
  using assms
  by (auto simp: deleteProduct_def getProductById_def find_product_filter split: option.splits)

theorem get_after_delete_witness:
  "reply_status (fst (deleteProduct 1
       [\<lparr>product_id = 1, product_name = ''Chair'', product_price = 4999 / 100,
          product_color = Some ''red'', product_stock = 10\<rparr>])) = 200
   \<and> getProductById 1 (snd (deleteProduct 1
       [\<lparr>product_id = 1, product_name = ''Chair'', product_price = 4999 / 100,
          product_color = Some ''red'', product_stock = 10\<rparr>]))
     = (Reply 404 (Message ''Product not found''), [])"
proof -
  have d: "deleteProduct 1
       [\<lparr>product_id = 1, product_name = ''Chair'', product_price = 4999 / 100,
          product_color = Some ''red'', product_stock = 10\<rparr>]
     = (Reply 200 (Message ''Product deleted''), [])"
    by (simp add: deleteProduct_def find_product_def)
  then have ok: "reply_status (fst (deleteProduct 1
       [\<lparr>product_id = 1, product_name = ''Chair'', product_price = 4999 / 100,
          product_color = Some ''red'', product_stock = 10\<rparr>])) = 200"
    by simp
  from get_after_delete [OF ok] ok d show ?thesis
    by simp
qed

end
